theory Spec2Isabelle
  imports Complex_Main
begin

section \<open>Order service: data model\<close>

text \<open>
  The embedding follows \<^verbatim>\<open>order-service/app/main.py\<close>, \<^verbatim>\<open>schemas.py\<close> and
  \<^verbatim>\<open>models.py\<close>. Python integers are \<open>int\<close>, strings are \<open>string\<close>, and
  \<^verbatim>\<open>Optional[...]\<close> is \<open>option\<close>. The \<^verbatim>\<open>Float\<close> columns and JSON numbers are
  modelled as \<open>real\<close>; no statement below depends on rounding. Field names that occur in
  more than one class carry a prefix.
\<close>

subsection \<open>schemas.py\<close>

record OrderItemRequest =
  item_id :: int
  quantity :: int

record CreateOrderRequest =
  customer_id :: int
  restaurant_id :: int
  address_id :: "int option"
  items :: "OrderItemRequest list"
  payment_method :: string
  customer_email :: "string option"

subsection \<open>models.py\<close>

record Order =
  order_id :: int
  o_customer_id :: int
  o_restaurant_id :: int
  o_address_id :: "int option"
  order_status :: string
  order_total :: real
  payment_status :: string
  created_at :: nat

record OrderItem =
  order_item_id :: int
  oi_order_id :: int
  oi_item_id :: int
  oi_quantity :: int
  price :: real

subsection \<open>Outbound HTTP calls\<close>

text \<open>
  A call through the \<^verbatim>\<open>httpx\<close> client either raises a transport error (timeout,
  connection refused) or returns a response with a status code and a body. The body is
  \<open>None\<close> when \<^verbatim>\<open>r.json()\<close> cannot decode it to a JSON object.
\<close>

datatype 'a http_outcome = Transport_failure | Response int "'a option"

text \<open>Customer lookup body: \<^verbatim>\<open>{email, addresses: [{address_id, ...}]}\<close>.\<close>

record customer_address =
  ca_address_id :: int

record customer_body =
  email :: "string option"
  addresses :: "customer_address list"

text \<open>Item validation body: \<^verbatim>\<open>{valid, reason?, total, items: [{item_id, quantity, unit_price}]}\<close>.
  The keys \<^verbatim>\<open>total\<close> and \<^verbatim>\<open>items\<close> are read with \<^verbatim>\<open>valid["..."]\<close>, which raises
  \<^verbatim>\<open>KeyError\<close> when the key is absent (\<open>None\<close>).\<close>

record item_detail =
  d_item_id :: int
  d_quantity :: int
  unit_price :: real

record validate_body =
  valid :: bool
  reason :: "string option"
  total :: "real option"
  v_items :: "item_detail list option"

text \<open>Payment charge body: \<^verbatim>\<open>{status: ...}\<close>.\<close>

record payment_body =
  status :: "string option"

record payment_payload =
  p_order_id :: int
  amount :: real
  p_method :: string
  reference :: string
  force_fail :: bool

record notification =
  event_type :: string
  recipient :: string
  subject :: string
  message :: string
  correlation_id :: string

text \<open>
  The collaborators, as functions of what each request carries, together with the two
  pieces of context the flow reads: the notification URL from the process environment and
  Python's rendering of a float inside an f-string.
\<close>

record env =
  customer_service :: "int \<Rightarrow> string \<Rightarrow> customer_body http_outcome"
  restaurant_service :: "int \<Rightarrow> (int \<times> int) list \<Rightarrow> string \<Rightarrow> validate_body http_outcome"
  payment_service :: "payment_payload \<Rightarrow> (string \<times> string) list \<Rightarrow> payment_body http_outcome"
  delivery_service :: "int \<Rightarrow> string \<Rightarrow> unit http_outcome"
  NOTIFICATION_SERVICE_URL :: string
  repr_float :: "real \<Rightarrow> string"

text \<open>What one request does to the outside world, in order: outbound calls and commits.\<close>

datatype event =
    Get_customer int string
  | Post_validate_items int "(int \<times> int) list" string
  | Post_payments_charge payment_payload "(string \<times> string) list"
  | Post_deliveries_assign int string
  | Post_notifications_email notification
  | Commit Order

subsection \<open>Failures\<close>

text \<open>
  \<^verbatim>\<open>HTTPException(status, detail)\<close> with the detail dictionary as a record; the other
  constructors are the exceptions that no handler of the service catches.
\<close>

record detail =
  code :: string
  detail_reason :: "string option"
  detail_order_id :: "int option"
  correlationId :: string

datatype exn =
    HTTPException int detail
  | TransportError
  | JSONDecodeError
  | KeyError string

text \<open>The status line the framework sends: the declared 201 on return, the status of an
  \<^verbatim>\<open>HTTPException\<close>, and 500 for any other exception.\<close>

fun http_status :: "exn + 'a \<Rightarrow> int" where
  "http_status (Inr _) = 201"
| "http_status (Inl (HTTPException s _)) = s"
| "http_status (Inl _) = 500"

fun error_code :: "exn + 'a \<Rightarrow> string option" where
  "error_code (Inl (HTTPException _ d)) = Some (code d)"
| "error_code _ = None"

section \<open>Repository\<close>

text \<open>
  Modelled from the spec: the module \<^verbatim>\<open>db\<close> (session factory and engine) is not part of
  the sources. The repository is the two tables of \<^verbatim>\<open>models.py\<close>; it assigns a new
  row an identifier larger than every identifier in its table, a commit makes the pending
  rows and field updates of the session durable, and an exception before a commit leaves
  the tables as they were.
\<close>

record db_state =
  orders :: "Order list"
  order_items :: "OrderItem list"

definition fresh_id :: "int list \<Rightarrow> int" where
  "fresh_id ids = fold max ids 0 + 1"

definition find_order :: "db_state \<Rightarrow> int \<Rightarrow> Order option" where
  "find_order db oid = find (\<lambda>r. order_id r = oid) (orders db)"

definition items_of :: "db_state \<Rightarrow> int \<Rightarrow> OrderItem list" where
  "items_of db oid = filter (\<lambda>r. oi_order_id r = oid) (order_items db)"

definition update_order :: "db_state \<Rightarrow> Order \<Rightarrow> db_state" where
  "update_order db ord =
     db\<lparr>orders := map (\<lambda>r. if order_id r = order_id ord then ord else r) (orders db)\<rparr>"

section \<open>main.py\<close>

subsection \<open>Python helpers\<close>

text \<open>Truthiness of an \<^verbatim>\<open>Optional[str]\<close>: \<^verbatim>\<open>None\<close> and the empty string are falsy.\<close>

definition truthy :: "string option \<Rightarrow> bool" where
  "truthy s = (case s of None \<Rightarrow> False | Some t \<Rightarrow> t \<noteq> [])"

text \<open>Decimal rendering of an integer inside an f-string.\<close>

definition digit_char :: "nat \<Rightarrow> char" where
  "digit_char d = ''0123456789'' ! d"

fun str_nat :: "nat \<Rightarrow> string" where
  "str_nat n = (if n < 10 then [digit_char n] else str_nat (n div 10) @ [digit_char (n mod 10)])"

declare str_nat.simps [simp del]

definition str_int :: "int \<Rightarrow> string" where
  "str_int i = (if i < 0 then CHR ''-'' # str_nat (nat (- i)) else str_nat (nat i))"

subsection \<open>validate_customer_and_address\<close>

definition validate_customer_and_address ::
  "env \<Rightarrow> int \<Rightarrow> int option \<Rightarrow> string \<Rightarrow> (exn + string option) \<times> event list" where
  "validate_customer_and_address e cust addr cid =
     (let tr = [Get_customer cust cid] in
      case customer_service e cust cid of
        Transport_failure \<Rightarrow> (Inl TransportError, tr)
      | Response status_code body \<Rightarrow>
          if status_code \<noteq> 200 then
            (Inl (HTTPException 400
               \<lparr>code = ''INVALID_CUSTOMER'', detail_reason = None,
                detail_order_id = None, correlationId = cid\<rparr>), tr)
          else
            (case body of
               None \<Rightarrow> (Inl JSONDecodeError, tr)
             | Some data \<Rightarrow>
                 (case addr of
                    None \<Rightarrow> (Inr (email data), tr)
                  | Some a \<Rightarrow>
                      if \<not> list_ex (\<lambda>x. ca_address_id x = a) (addresses data) then
                        (Inl (HTTPException 400
                           \<lparr>code = ''INVALID_ADDRESS_FOR_CUSTOMER'', detail_reason = None,
                            detail_order_id = None, correlationId = cid\<rparr>), tr)
                      else (Inr (email data), tr))))"

subsection \<open>validate_restaurant_and_items\<close>

definition validate_restaurant_and_items ::
  "env \<Rightarrow> int \<Rightarrow> OrderItemRequest list \<Rightarrow> string \<Rightarrow> (exn + validate_body) \<times> event list" where
  "validate_restaurant_and_items e rest its cid =
     (if its = [] then
        (Inl (HTTPException 400
           \<lparr>code = ''EMPTY_ORDER'', detail_reason = None,
            detail_order_id = None, correlationId = cid\<rparr>), [])
      else
        (let body_items = map (\<lambda>it. (item_id it, quantity it)) its;
             tr = [Post_validate_items rest body_items cid] in
         case restaurant_service e rest body_items cid of
           Transport_failure \<Rightarrow> (Inl TransportError, tr)
         | Response status_code body \<Rightarrow>
             if status_code \<noteq> 200 then
               (Inl (HTTPException 502
                  \<lparr>code = ''MENU_VALIDATION_FAILED'', detail_reason = None,
                   detail_order_id = None, correlationId = cid\<rparr>), tr)
             else
               (case body of
                  None \<Rightarrow> (Inl JSONDecodeError, tr)
                | Some v \<Rightarrow>
                    if \<not> valid v then
                      (Inl (HTTPException 400
                         \<lparr>code = ''INVALID_MENU_SELECTION'', detail_reason = reason v,
                          detail_order_id = None, correlationId = cid\<rparr>), tr)
                    else (Inr v, tr))))"

subsection \<open>call_payment_service\<close>

definition payment_request_payload :: "Order \<Rightarrow> string \<Rightarrow> payment_payload" where
  "payment_request_payload ord meth =
     \<lparr>p_order_id = order_id ord, amount = order_total ord, p_method = meth,
      reference = ''ORDER-'' @ str_int (order_id ord), force_fail = False\<rparr>"

definition payment_request_headers :: "Order \<Rightarrow> string option \<Rightarrow> string \<Rightarrow> (string \<times> string) list" where
  "payment_request_headers ord em cid =
     [(''X-Correlation-Id'', cid)]
     @ (if truthy em then [(''X-Customer-Email'', the em)] else [])
     @ [(''Idempotency-Key'', ''order-'' @ str_int (order_id ord) @ ''-payment'')]"

definition call_payment_service ::
  "env \<Rightarrow> Order \<Rightarrow> string \<Rightarrow> string option \<Rightarrow> string \<Rightarrow> (exn + bool) \<times> event list" where
  "call_payment_service e ord meth em cid =
     (let payload = payment_request_payload ord meth;
          headers = payment_request_headers ord em cid;
          tr = [Post_payments_charge payload headers] in
      case payment_service e payload headers of
        Transport_failure \<Rightarrow> (Inl TransportError, tr)
      | Response status_code body \<Rightarrow>
          if status_code = 201 then
            (case body of
               None \<Rightarrow> (Inl JSONDecodeError, tr)
             | Some data \<Rightarrow>
                 if status data = Some ''SUCCESS'' then (Inr True, tr) else (Inr False, tr))
          else (Inr False, tr))"

subsection \<open>call_delivery_assign\<close>

definition call_delivery_assign :: "env \<Rightarrow> int \<Rightarrow> string \<Rightarrow> (exn + bool) \<times> event list" where
  "call_delivery_assign e oid cid =
     (let tr = [Post_deliveries_assign oid cid] in
      case delivery_service e oid cid of
        Transport_failure \<Rightarrow> (Inl TransportError, tr)
      | Response status_code _ \<Rightarrow> (Inr (status_code = 201), tr))"

subsection \<open>notify\<close>

text \<open>The call sits in \<^verbatim>\<open>try ... except Exception\<close>: whatever the notification service
  does, \<^verbatim>\<open>notify\<close> returns normally, so only the attempt is recorded.\<close>

definition notify :: "env \<Rightarrow> string \<Rightarrow> string option \<Rightarrow> string \<Rightarrow> string \<Rightarrow> string \<Rightarrow> event list" where
  "notify e ev rcpt subj msg cid =
     (if \<not> (NOTIFICATION_SERVICE_URL e \<noteq> [] \<and> truthy rcpt) then []
      else [Post_notifications_email
              \<lparr>event_type = ev, recipient = the rcpt, subject = subj,
               message = msg, correlation_id = cid\<rparr>])"

subsection \<open>create_order\<close>

text \<open>Step 3 (lines 225--247): the pending order and one row per item detail, committed
  together.\<close>

fun new_order_items :: "int \<Rightarrow> int \<Rightarrow> item_detail list \<Rightarrow> OrderItem list" where
  "new_order_items oid n [] = []"
| "new_order_items oid n (d # ds) =
     \<lparr>order_item_id = n, oi_order_id = oid, oi_item_id = d_item_id d,
      oi_quantity = d_quantity d, price = unit_price d\<rparr> # new_order_items oid (n + 1) ds"

definition persist_pending_order ::
  "CreateOrderRequest \<Rightarrow> real \<Rightarrow> item_detail list \<Rightarrow> nat \<Rightarrow> db_state \<Rightarrow> Order \<times> db_state" where
  "persist_pending_order payload tot items_details now db =
     (let ord = \<lparr>order_id = fresh_id (map order_id (orders db)),
                 o_customer_id = customer_id payload,
                 o_restaurant_id = restaurant_id payload,
                 o_address_id = address_id payload,
                 order_status = ''PENDING_PAYMENT'',
                 order_total = tot,
                 payment_status = ''PENDING'',
                 created_at = now\<rparr>;
          rows = new_order_items (order_id ord)
                   (fresh_id (map order_item_id (order_items db))) items_details
      in (ord, db\<lparr>orders := orders db @ [ord], order_items := order_items db @ rows\<rparr>))"

text \<open>Step 6 (lines 300--308): the notification, sent only when an e-mail is known.\<close>

definition notify_order_created :: "env \<Rightarrow> string option \<Rightarrow> string \<Rightarrow> Order \<Rightarrow> event list" where
  "notify_order_created e em cid ord3 =
     (if truthy em then
        notify e ''ORDER_CREATED'' em
          (''Order #'' @ str_int (order_id ord3) @ '' placed successfully'')
          (''Your order total is '' @ repr_float e (order_total ord3)
             @ ''. Status: '' @ order_status ord3)
          cid
      else [])"

text \<open>Steps 4 to 8 (lines 254--312): payment, the status commits, delivery, notification.\<close>

definition pay_and_dispatch ::
  "env \<Rightarrow> CreateOrderRequest \<Rightarrow> string option \<Rightarrow> string \<Rightarrow> Order \<Rightarrow> db_state
     \<Rightarrow> (exn + Order \<times> OrderItem list) \<times> db_state \<times> event list" where
  "pay_and_dispatch e payload em cid ord db =
     (case call_payment_service e ord (payment_method payload) em cid of
        (Inl x, tr) \<Rightarrow> (Inl x, db, tr)
      | (Inr payment_ok, tr) \<Rightarrow>
          if \<not> payment_ok then
            (let ord1 = ord\<lparr>order_status := ''PAYMENT_FAILED'', payment_status := ''FAILED''\<rparr> in
             (Inl (HTTPException 402
                \<lparr>code = ''PAYMENT_FAILED'', detail_reason = None,
                 detail_order_id = Some (order_id ord1), correlationId = cid\<rparr>),
              update_order db ord1, tr @ [Commit ord1]))
          else
            (let ord2 = ord\<lparr>payment_status := ''SUCCESS'', order_status := ''CONFIRMED''\<rparr>;
                 db2 = update_order db ord2;
                 tr2 = tr @ [Commit ord2] in
             case call_delivery_assign e (order_id ord2) cid of
               (Inl x, tr3) \<Rightarrow> (Inl x, db2, tr2 @ tr3)
             | (Inr delivery_ok, tr3) \<Rightarrow>
                 (let ord3 = (if delivery_ok then ord2\<lparr>order_status := ''OUT_FOR_DELIVERY''\<rparr> else ord2);
                      db3 = (if delivery_ok then update_order db2 ord3 else db2);
                      tr4 = (if delivery_ok then [Commit ord3] else []);
                      tr5 = notify_order_created e em cid ord3
                  in (Inr (ord3, items_of db3 (order_id ord3)), db3, tr2 @ tr3 @ tr4 @ tr5))))"

text \<open>Step 1 (lines 206--211): \<^verbatim>\<open>payload.customer_email or validate_customer_and_address(...)\<close>
  evaluates the call only when the supplied e-mail is falsy.\<close>

definition resolve_customer_email ::
  "env \<Rightarrow> CreateOrderRequest \<Rightarrow> string \<Rightarrow> (exn + string option) \<times> event list" where
  "resolve_customer_email e payload cid =
     (if truthy (customer_email payload) then (Inr (customer_email payload), [])
      else validate_customer_and_address e (customer_id payload) (address_id payload) cid)"

text \<open>The whole endpoint.\<close>

definition create_order ::
  "env \<Rightarrow> CreateOrderRequest \<Rightarrow> string \<Rightarrow> nat \<Rightarrow> db_state
     \<Rightarrow> (exn + Order \<times> OrderItem list) \<times> db_state \<times> event list" where
  "create_order e payload cid now db =
     (case resolve_customer_email e payload cid of
        (Inl x, tr1) \<Rightarrow> (Inl x, db, tr1)
      | (Inr em, tr1) \<Rightarrow>
          (case validate_restaurant_and_items e (restaurant_id payload) (items payload) cid of
             (Inl x, tr2) \<Rightarrow> (Inl x, db, tr1 @ tr2)
           | (Inr v, tr2) \<Rightarrow>
               (case total v of
                  None \<Rightarrow> (Inl (KeyError ''total''), db, tr1 @ tr2)
                | Some tot \<Rightarrow>
                    (case v_items v of
                       None \<Rightarrow> (Inl (KeyError ''items''), db, tr1 @ tr2)
                     | Some items_details \<Rightarrow>
                         (case persist_pending_order payload tot items_details now db of
                            (ord, db1) \<Rightarrow>
                              (case pay_and_dispatch e payload em cid ord db1 of
                                 (res, db', tr3) \<Rightarrow> (res, db', tr1 @ tr2 @ [Commit ord] @ tr3)))))))"

subsection \<open>get_order\<close>

definition get_order :: "db_state \<Rightarrow> int \<Rightarrow> string \<Rightarrow> exn + Order \<times> OrderItem list" where
  "get_order db oid cid =
     (case find_order db oid of
        None \<Rightarrow> Inl (HTTPException 404
                  \<lparr>code = ''ORDER_NOT_FOUND'', detail_reason = None,
                   detail_order_id = None, correlationId = cid\<rparr>)
      | Some ord \<Rightarrow> Inr (ord, items_of db oid))"

section \<open>Notions used by the properties\<close>

text \<open>The order snapshots a flow committed, in order.\<close>

fun commits :: "event list \<Rightarrow> Order list" where
  "commits [] = []"
| "commits (Commit ord # evs) = ord # commits evs"
| "commits (_ # evs) = commits evs"

text \<open>The payment charges a flow sent, in order.\<close>

fun charges :: "event list \<Rightarrow> (payment_payload \<times> (string \<times> string) list) list" where
  "charges [] = []"
| "charges (Post_payments_charge pl hs # evs) = (pl, hs) # charges evs"
| "charges (_ # evs) = charges evs"

fun is_customer_lookup :: "event \<Rightarrow> bool" where
  "is_customer_lookup (Get_customer _ _) = True"
| "is_customer_lookup _ = False"

fun is_validate_items :: "event \<Rightarrow> bool" where
  "is_validate_items (Post_validate_items _ _ _) = True"
| "is_validate_items _ = False"

text \<open>The status transitions of section 4.3 of the specification.\<close>

definition status_step :: "string \<Rightarrow> string \<Rightarrow> bool" where
  "status_step a b =
     (a = ''PENDING_PAYMENT'' \<and> b = ''PAYMENT_FAILED''
      \<or> a = ''PENDING_PAYMENT'' \<and> b = ''CONFIRMED''
      \<or> a = ''CONFIRMED'' \<and> b = ''OUT_FOR_DELIVERY'')"

text \<open>Sum of price times quantity, over persisted rows and over returned item details.\<close>

definition items_sum :: "OrderItem list \<Rightarrow> real" where
  "items_sum rows = sum_list (map (\<lambda>r. price r * real_of_int (oi_quantity r)) rows)"

definition details_sum :: "item_detail list \<Rightarrow> real" where
  "details_sum ds = sum_list (map (\<lambda>d. unit_price d * real_of_int (d_quantity d)) ds)"

text \<open>The foreign key of \<^verbatim>\<open>order_items.order_id\<close>: every item row belongs to an order row.\<close>

definition items_owned :: "db_state \<Rightarrow> bool" where
  "items_owned db = list_all (\<lambda>r. oi_order_id r \<in> set (map order_id (orders db))) (order_items db)"

section \<open>Concrete collaborators and requests\<close>

text \<open>The example scenario of the specification: customer 1 with address 100, restaurant 5,
  two of item 10 at 5 and one of item 11 at 3.\<close>

definition customer_1 :: customer_body where
  "customer_1 = \<lparr>email = Some ''c1@example.org'', addresses = [\<lparr>ca_address_id = 100\<rparr>]\<rparr>"

definition menu_13 :: validate_body where
  "menu_13 = \<lparr>valid = True, reason = None, total = Some 13,
     v_items = Some [\<lparr>d_item_id = 10, d_quantity = 2, unit_price = 5\<rparr>,
                     \<lparr>d_item_id = 11, d_quantity = 1, unit_price = 3\<rparr>]\<rparr>"

definition env_ok :: env where
  "env_ok =
     \<lparr>customer_service = (\<lambda>_ _. Response 200 (Some customer_1)),
      restaurant_service = (\<lambda>_ _ _. Response 200 (Some menu_13)),
      payment_service = (\<lambda>_ _. Response 201 (Some \<lparr>status = Some ''SUCCESS''\<rparr>)),
      delivery_service = (\<lambda>_ _. Response 201 None),
      NOTIFICATION_SERVICE_URL = ''http://notification-service:8004'',
      repr_float = (\<lambda>_. ''13.0'')\<rparr>"

definition request_1 :: CreateOrderRequest where
  "request_1 =
     \<lparr>customer_id = 1, restaurant_id = 5, address_id = Some 100,
      items = [\<lparr>item_id = 10, quantity = 2\<rparr>, \<lparr>item_id = 11, quantity = 1\<rparr>],
      payment_method = ''CARD'', customer_email = None\<rparr>"

definition db_empty :: db_state where
  "db_empty = \<lparr>orders = [], order_items = []\<rparr>"

text \<open>Variations: a collaborator that times out, declines, or contradicts itself.\<close>

definition env_payment_timeout :: env where
  "env_payment_timeout = env_ok\<lparr>payment_service := (\<lambda>_ _. Transport_failure)\<rparr>"

definition env_payment_declined :: env where
  "env_payment_declined =
     env_ok\<lparr>payment_service := (\<lambda>_ _. Response 201 (Some \<lparr>status = Some ''FAILED''\<rparr>))\<rparr>"

definition env_delivery_timeout :: env where
  "env_delivery_timeout = env_ok\<lparr>delivery_service := (\<lambda>_ _. Transport_failure)\<rparr>"

definition env_delivery_busy :: env where
  "env_delivery_busy = env_ok\<lparr>delivery_service := (\<lambda>_ _. Response 503 None)\<rparr>"

definition env_restaurant_timeout :: env where
  "env_restaurant_timeout = env_ok\<lparr>restaurant_service := (\<lambda>_ _ _. Transport_failure)\<rparr>"

definition env_restaurant_down :: env where
  "env_restaurant_down = env_ok\<lparr>restaurant_service := (\<lambda>_ _ _. Response 503 None)\<rparr>"

definition env_customer_timeout :: env where
  "env_customer_timeout = env_ok\<lparr>customer_service := (\<lambda>_ _. Transport_failure)\<rparr>"

definition env_customer_unknown :: env where
  "env_customer_unknown = env_ok\<lparr>customer_service := (\<lambda>_ _. Response 404 None)\<rparr>"

definition env_menu_total_100 :: env where
  "env_menu_total_100 =
     env_ok\<lparr>restaurant_service := (\<lambda>_ _ _. Response 200 (Some (menu_13\<lparr>total := Some 100\<rparr>)))\<rparr>"

definition request_with_email :: CreateOrderRequest where
  "request_with_email = request_1\<lparr>address_id := Some 999, customer_email := Some ''x@example.org''\<rparr>"

definition request_wrong_address :: CreateOrderRequest where
  "request_wrong_address = request_1\<lparr>address_id := Some 999\<rparr>"

definition request_no_items :: CreateOrderRequest where
  "request_no_items = request_1\<lparr>items := []\<rparr>"

section \<open>Facts about the repository\<close>

lemma fold_max_mono: "(a::int) \<le> fold max xs a"
proof (induction xs arbitrary: a)
  case Nil
  show ?case by simp
next
  case (Cons x xs)
  have "a \<le> max x a" by simp
  also have "\<dots> \<le> fold max xs (max x a)" by (rule Cons.IH)
  finally show ?case by simp
qed

lemma fold_max_upper: "(x::int) \<in> set xs \<Longrightarrow> x \<le> fold max xs a"
proof (induction xs arbitrary: a)
  case Nil
  then show ?case by simp
next
  case (Cons y ys)
  show ?case
  proof (cases "x = y")
    case True
    have "x \<le> max y a" using True by simp
    also have "\<dots> \<le> fold max ys (max y a)" by (rule fold_max_mono)
    finally show ?thesis by simp
  next
    case False
    with Cons.prems have "x \<in> set ys" by simp
    then show ?thesis using Cons.IH by simp
  qed
qed

lemma fresh_id_above: "x \<in> set ids \<Longrightarrow> x < fresh_id ids"
  using fold_max_upper [of x ids 0] by (simp add: fresh_id_def)

lemma fresh_id_new: "fresh_id ids \<notin> set ids"
  using fresh_id_above [of "fresh_id ids" ids] by auto

lemma find_fresh_append:
  "oid \<notin> set (map order_id rows) \<Longrightarrow> order_id ord = oid \<Longrightarrow>
   find (\<lambda>r. order_id r = oid) (rows @ [ord]) = Some ord"
  by (induction rows) auto

lemma find_after_update:
  "order_id ord = oid \<Longrightarrow> find (\<lambda>r. order_id r = oid) rows = Some old \<Longrightarrow>
   find (\<lambda>r. order_id r = oid) (map (\<lambda>r. if order_id r = oid then ord else r) rows) = Some ord"
  by (induction rows) (auto split: if_splits)

lemma find_order_persisted:
  "persist_pending_order payload tot ds now db = (ord, db1) \<Longrightarrow>
   find_order db1 (order_id ord) = Some ord"
  using find_fresh_append [of "fresh_id (map order_id (orders db))" "orders db"] fresh_id_new [of "map order_id (orders db)"]
  by (auto simp: persist_pending_order_def find_order_def Let_def)

lemma find_order_update:
  "find_order db (order_id ord) = Some old \<Longrightarrow> find_order (update_order db ord) (order_id ord) = Some ord"
  using find_after_update [of ord "order_id ord" "orders db" old]
  by (simp add: find_order_def update_order_def)

lemma items_of_update [simp]: "items_of (update_order db ord) oid = items_of db oid"
  by (simp add: items_of_def update_order_def)

lemma new_order_items_owner: "r \<in> set (new_order_items oid n ds) \<Longrightarrow> oi_order_id r = oid"
  by (induction oid n ds rule: new_order_items.induct) auto

lemma items_sum_new: "items_sum (new_order_items oid n ds) = details_sum ds"
  by (induction oid n ds rule: new_order_items.induct) (auto simp: items_sum_def details_sum_def)

lemma filter_new_order_items: "filter (\<lambda>r. oi_order_id r = oid) (new_order_items oid n ds) = new_order_items oid n ds"
  by (induction oid n ds rule: new_order_items.induct) auto

lemma items_of_persisted:
  assumes "persist_pending_order payload tot ds now db = (ord, db1)" and "items_owned db"
  shows "items_of db1 (order_id ord) =
           new_order_items (order_id ord) (fresh_id (map order_item_id (order_items db))) ds"
proof -
  have oid: "order_id ord = fresh_id (map order_id (orders db))"
    using assms(1) by (auto simp: persist_pending_order_def Let_def)
  have "oi_order_id r \<noteq> order_id ord" if "r \<in> set (order_items db)" for r
  proof
    assume eq: "oi_order_id r = order_id ord"
    from assms(2) that have "oi_order_id r \<in> set (map order_id (orders db))"
      by (simp add: items_owned_def list_all_iff)
    with eq oid fresh_id_new [of "map order_id (orders db)"] show False by simp
  qed
  then have "filter (\<lambda>r. oi_order_id r = order_id ord) (order_items db) = []"
    by (simp add: filter_empty_conv)
  moreover have "order_items db1 = order_items db @ new_order_items (order_id ord) (fresh_id (map order_item_id (order_items db))) ds"
    using assms(1) by (auto simp: persist_pending_order_def Let_def)
  ultimately show ?thesis
    by (simp add: items_of_def filter_new_order_items)
qed

section \<open>Facts about the flow\<close>

text \<open>The stages of \<^verbatim>\<open>create_order\<close>, by where the flow ends.\<close>

lemma create_order_cases [consumes 1, case_names customer_fails menu_fails no_total no_items persisted]:
  assumes "create_order e payload cid now db = (res, db', tr)"
  obtains
    x tr1 where "resolve_customer_email e payload cid = (Inl x, tr1)"
      "res = Inl x" "db' = db" "tr = tr1"
  | em tr1 x tr2 where "resolve_customer_email e payload cid = (Inr em, tr1)"
      "validate_restaurant_and_items e (restaurant_id payload) (items payload) cid = (Inl x, tr2)"
      "res = Inl x" "db' = db" "tr = tr1 @ tr2"
  | em tr1 v tr2 where "resolve_customer_email e payload cid = (Inr em, tr1)"
      "validate_restaurant_and_items e (restaurant_id payload) (items payload) cid = (Inr v, tr2)"
      "total v = None" "res = Inl (KeyError ''total'')" "db' = db" "tr = tr1 @ tr2"
  | em tr1 v tr2 tot where "resolve_customer_email e payload cid = (Inr em, tr1)"
      "validate_restaurant_and_items e (restaurant_id payload) (items payload) cid = (Inr v, tr2)"
      "total v = Some tot" "v_items v = None" "res = Inl (KeyError ''items'')" "db' = db" "tr = tr1 @ tr2"
  | em tr1 v tr2 tot ds ord db1 tr3 where "resolve_customer_email e payload cid = (Inr em, tr1)"
      "validate_restaurant_and_items e (restaurant_id payload) (items payload) cid = (Inr v, tr2)"
      "total v = Some tot" "v_items v = Some ds"
      "persist_pending_order payload tot ds now db = (ord, db1)"
      "pay_and_dispatch e payload em cid ord db1 = (res, db', tr3)"
      "tr = tr1 @ tr2 @ [Commit ord] @ tr3"
  using assms
  by (auto simp: create_order_def split: prod.splits sum.splits option.splits)

lemma resolve_trace:
  "resolve_customer_email e payload cid = (r, tr) \<Longrightarrow>
   tr = (if truthy (customer_email payload) then [] else [Get_customer (customer_id payload) cid])"
  by (auto simp: resolve_customer_email_def validate_customer_and_address_def Let_def
      split: if_splits http_outcome.splits option.splits)

lemma validate_items_trace:
  "validate_restaurant_and_items e rest its cid = (r, tr) \<Longrightarrow>
   tr = (if its = [] then [] else [Post_validate_items rest (map (\<lambda>it. (item_id it, quantity it)) its) cid])"
  by (auto simp: validate_restaurant_and_items_def Let_def
      split: if_splits http_outcome.splits option.splits)

lemma validate_items_ok:
  "validate_restaurant_and_items e rest its cid = (Inr v, tr) \<Longrightarrow>
   its \<noteq> [] \<and> valid v \<and>
   restaurant_service e rest (map (\<lambda>it. (item_id it, quantity it)) its) cid = Response 200 (Some v)"
  by (auto simp: validate_restaurant_and_items_def Let_def
      split: if_splits http_outcome.splits option.splits)

lemma persist_order_fields:
  "persist_pending_order payload tot ds now db = (ord, db1) \<Longrightarrow>
   order_status ord = ''PENDING_PAYMENT'' \<and> payment_status ord = ''PENDING'' \<and> order_total ord = tot
   \<and> o_address_id ord = address_id payload \<and> order_id ord = fresh_id (map order_id (orders db))"
  by (auto simp: persist_pending_order_def Let_def)



text \<open>Payment and delivery, by outcome of the collaborator.\<close>

lemma call_payment_service_eq:
  "call_payment_service e ord meth em cid =
     ((case payment_service e (payment_request_payload ord meth) (payment_request_headers ord em cid) of
         Transport_failure \<Rightarrow> Inl TransportError
       | Response sc body \<Rightarrow>
           if sc = 201 then (case body of None \<Rightarrow> Inl JSONDecodeError
                                       | Some data \<Rightarrow> Inr (status data = Some ''SUCCESS''))
           else Inr False),
      [Post_payments_charge (payment_request_payload ord meth) (payment_request_headers ord em cid)])"
  by (simp add: call_payment_service_def Let_def split: http_outcome.splits option.splits)

lemma call_delivery_assign_eq:
  "call_delivery_assign e oid cid =
     ((case delivery_service e oid cid of
         Transport_failure \<Rightarrow> Inl TransportError
       | Response sc body \<Rightarrow> Inr (sc = 201)),
      [Post_deliveries_assign oid cid])"
  by (simp add: call_delivery_assign_def Let_def split: http_outcome.splits)

lemma pay_and_dispatch_payment_raises:
  "call_payment_service e ord (payment_method payload) em cid = (Inl x, tr) \<Longrightarrow>
   pay_and_dispatch e payload em cid ord db = (Inl x, db, tr)"
  by (simp add: pay_and_dispatch_def)

lemma pay_and_dispatch_payment_failed:
  "call_payment_service e ord (payment_method payload) em cid = (Inr False, tr) \<Longrightarrow>
   pay_and_dispatch e payload em cid ord db =
     (Inl (HTTPException 402 \<lparr>code = ''PAYMENT_FAILED'', detail_reason = None,
            detail_order_id = Some (order_id ord), correlationId = cid\<rparr>),
      update_order db (ord\<lparr>order_status := ''PAYMENT_FAILED'', payment_status := ''FAILED''\<rparr>),
      tr @ [Commit (ord\<lparr>order_status := ''PAYMENT_FAILED'', payment_status := ''FAILED''\<rparr>)])"
  by (simp add: pay_and_dispatch_def Let_def)

lemma pay_and_dispatch_delivery_raises:
  "call_payment_service e ord (payment_method payload) em cid = (Inr True, tr) \<Longrightarrow>
   delivery_service e (order_id ord) cid = Transport_failure \<Longrightarrow>
   pay_and_dispatch e payload em cid ord db =
     (Inl TransportError,
      update_order db (ord\<lparr>payment_status := ''SUCCESS'', order_status := ''CONFIRMED''\<rparr>),
      tr @ [Commit (ord\<lparr>payment_status := ''SUCCESS'', order_status := ''CONFIRMED''\<rparr>),
            Post_deliveries_assign (order_id ord) cid])"
  by (simp add: pay_and_dispatch_def Let_def call_delivery_assign_eq)

lemma pay_and_dispatch_assigned:
  "call_payment_service e ord (payment_method payload) em cid = (Inr True, tr) \<Longrightarrow>
   delivery_service e (order_id ord) cid = Response 201 b \<Longrightarrow>
   pay_and_dispatch e payload em cid ord db =
     (Inr (ord\<lparr>payment_status := ''SUCCESS'', order_status := ''OUT_FOR_DELIVERY''\<rparr>, items_of db (order_id ord)),
      update_order (update_order db (ord\<lparr>payment_status := ''SUCCESS'', order_status := ''CONFIRMED''\<rparr>))
        (ord\<lparr>payment_status := ''SUCCESS'', order_status := ''OUT_FOR_DELIVERY''\<rparr>),
      tr @ [Commit (ord\<lparr>payment_status := ''SUCCESS'', order_status := ''CONFIRMED''\<rparr>),
            Post_deliveries_assign (order_id ord) cid,
            Commit (ord\<lparr>payment_status := ''SUCCESS'', order_status := ''OUT_FOR_DELIVERY''\<rparr>)]
         @ notify_order_created e em cid (ord\<lparr>payment_status := ''SUCCESS'', order_status := ''OUT_FOR_DELIVERY''\<rparr>))"
  by (simp add: pay_and_dispatch_def Let_def call_delivery_assign_eq notify_order_created_def)

lemma pay_and_dispatch_not_assigned:
  "call_payment_service e ord (payment_method payload) em cid = (Inr True, tr) \<Longrightarrow>
   delivery_service e (order_id ord) cid = Response sc b \<Longrightarrow> sc \<noteq> 201 \<Longrightarrow>
   pay_and_dispatch e payload em cid ord db =
     (Inr (ord\<lparr>payment_status := ''SUCCESS'', order_status := ''CONFIRMED''\<rparr>, items_of db (order_id ord)),
      update_order db (ord\<lparr>payment_status := ''SUCCESS'', order_status := ''CONFIRMED''\<rparr>),
      tr @ [Commit (ord\<lparr>payment_status := ''SUCCESS'', order_status := ''CONFIRMED''\<rparr>),
            Post_deliveries_assign (order_id ord) cid]
         @ notify_order_created e em cid (ord\<lparr>payment_status := ''SUCCESS'', order_status := ''CONFIRMED''\<rparr>))"
  by (simp add: pay_and_dispatch_def Let_def call_delivery_assign_eq notify_order_created_def)

text \<open>Unfolding sets for evaluating the flow on concrete collaborators.\<close>

lemmas fixtures = customer_1_def menu_13_def env_ok_def request_1_def db_empty_def
  env_payment_timeout_def env_payment_declined_def env_delivery_timeout_def env_delivery_busy_def
  env_restaurant_timeout_def env_restaurant_down_def env_customer_timeout_def env_customer_unknown_def
  env_menu_total_100_def request_with_email_def request_wrong_address_def request_no_items_def

lemmas defs = create_order_def resolve_customer_email_def validate_customer_and_address_def
  validate_restaurant_and_items_def persist_pending_order_def pay_and_dispatch_def
  call_payment_service_def call_delivery_assign_def notify_def payment_request_payload_def
  payment_request_headers_def truthy_def fresh_id_def update_order_def items_of_def find_order_def
  notify_order_created_def

lemmas evals = fixtures defs Let_def str_int_def str_nat.simps digit_char_def

lemma pay_and_dispatch_cases [case_names payment_raises payment_failed delivery_raises assigned not_assigned]:
  fixes e payload em cid ord db
  defines "req \<equiv> Post_payments_charge (payment_request_payload ord (payment_method payload))
                   (payment_request_headers ord em cid)"
  defines "ord2 \<equiv> ord\<lparr>payment_status := ''SUCCESS'', order_status := ''CONFIRMED''\<rparr>"
  defines "ord3 \<equiv> ord\<lparr>payment_status := ''SUCCESS'', order_status := ''OUT_FOR_DELIVERY''\<rparr>"
  defines "ord1 \<equiv> ord\<lparr>order_status := ''PAYMENT_FAILED'', payment_status := ''FAILED''\<rparr>"
  obtains
    x where "call_payment_service e ord (payment_method payload) em cid = (Inl x, [req])"
      "pay_and_dispatch e payload em cid ord db = (Inl x, db, [req])"
  | "call_payment_service e ord (payment_method payload) em cid = (Inr False, [req])"
      "pay_and_dispatch e payload em cid ord db =
         (Inl (HTTPException 402 \<lparr>code = ''PAYMENT_FAILED'', detail_reason = None,
                detail_order_id = Some (order_id ord), correlationId = cid\<rparr>),
          update_order db ord1, [req, Commit ord1])"
  | "call_payment_service e ord (payment_method payload) em cid = (Inr True, [req])"
      "delivery_service e (order_id ord) cid = Transport_failure"
      "pay_and_dispatch e payload em cid ord db =
         (Inl TransportError, update_order db ord2,
          [req, Commit ord2, Post_deliveries_assign (order_id ord) cid])"
  | b where "call_payment_service e ord (payment_method payload) em cid = (Inr True, [req])"
      "delivery_service e (order_id ord) cid = Response 201 b"
      "pay_and_dispatch e payload em cid ord db =
         (Inr (ord3, items_of db (order_id ord)), update_order (update_order db ord2) ord3,
          [req, Commit ord2, Post_deliveries_assign (order_id ord) cid, Commit ord3]
            @ notify_order_created e em cid ord3)"
  | sc b where "call_payment_service e ord (payment_method payload) em cid = (Inr True, [req])"
      "delivery_service e (order_id ord) cid = Response sc b" "sc \<noteq> 201"
      "pay_and_dispatch e payload em cid ord db =
         (Inr (ord2, items_of db (order_id ord)), update_order db ord2,
          [req, Commit ord2, Post_deliveries_assign (order_id ord) cid]
            @ notify_order_created e em cid ord2)"
proof -
  obtain r where cps: "call_payment_service e ord (payment_method payload) em cid = (r, [req])"
    by (simp add: call_payment_service_eq req_def)
  show thesis
  proof (cases r)
    case (Inl x)
    with cps pay_and_dispatch_payment_raises [of e ord payload em cid x "[req]" db] that(1)
    show thesis by simp
  next
    case (Inr ok)
    show thesis
    proof (cases ok)
      case False
      with Inr cps pay_and_dispatch_payment_failed [of e ord payload em cid "[req]" db] that(2)
      show thesis by (simp add: ord1_def)
    next
      case True
      with Inr cps have ok: "call_payment_service e ord (payment_method payload) em cid = (Inr True, [req])"
        by simp
      show thesis
      proof (cases "delivery_service e (order_id ord) cid")
        case Transport_failure
        with ok pay_and_dispatch_delivery_raises [of e ord payload em cid "[req]" db] that(3)
        show thesis by (simp add: ord2_def)
      next
        case (Response sc b)
        show thesis
        proof (cases "sc = 201")
          case True
          with ok Response pay_and_dispatch_assigned [of e ord payload em cid "[req]" b db] that(4)
          show thesis by (simp add: ord2_def ord3_def)
        next
          case False
          with ok Response pay_and_dispatch_not_assigned [of e ord payload em cid "[req]" sc b db] that(5)
          show thesis by (simp add: ord2_def)
        qed
      qed
    qed
  qed
qed

lemma commits_append [simp]: "commits (xs @ ys) = commits xs @ commits ys"
  by (induction xs rule: commits.induct) auto

lemma charges_append [simp]: "charges (xs @ ys) = charges xs @ charges ys"
  by (induction xs rule: charges.induct) auto

lemma charge_in_trace: "Post_payments_charge pl hs \<in> set tr \<longleftrightarrow> (pl, hs) \<in> set (charges tr)"
  by (induction tr rule: charges.induct) auto

lemma commit_in_trace: "Commit ord \<in> set tr \<longleftrightarrow> ord \<in> set (commits tr)"
  by (induction tr rule: commits.induct) auto

lemma notify_order_created_quiet [simp]:
  "commits (notify_order_created e em cid ord) = []" "charges (notify_order_created e em cid ord) = []"
  by (simp_all add: notify_order_created_def notify_def)

lemma resolve_quiet:
  "resolve_customer_email e payload cid = (r, tr) \<Longrightarrow> commits tr = [] \<and> charges tr = []"
  by (auto dest: resolve_trace)

lemma validate_items_quiet:
  "validate_restaurant_and_items e rest its cid = (r, tr) \<Longrightarrow> commits tr = [] \<and> charges tr = []"
  by (auto dest: validate_items_trace)

lemma payment_declines:
  assumes "payment_service e (payment_request_payload ord meth) (payment_request_headers ord em cid) = Response sc body"
    and "sc \<noteq> 201 \<or> (\<exists>data. body = Some data \<and> status data \<noteq> Some ''SUCCESS'')"
  shows "fst (call_payment_service e ord meth em cid) = Inr False"
  using assms by (auto simp: call_payment_service_eq)

lemma reaches_payment:
  assumes run: "create_order e payload cid now db = (res, db', tr)"
    and charge: "Post_payments_charge pl hs \<in> set tr"
  obtains em tr0 tot ds ord db1 tr3 where
    "persist_pending_order payload tot ds now db = (ord, db1)"
    "pay_and_dispatch e payload em cid ord db1 = (res, db', tr3)"
    "tr = tr0 @ [Commit ord] @ tr3" "commits tr0 = []" "charges tr0 = []"
    "pl = payment_request_payload ord (payment_method payload)"
    "hs = payment_request_headers ord em cid"
  using run
proof (cases rule: create_order_cases)
  case (customer_fails x tr1)
  with charge resolve_quiet [of e payload cid "Inl x" tr1] show ?thesis
    by (simp add: charge_in_trace)
next
  case (menu_fails em tr1 x tr2)
  with charge resolve_quiet [of e payload cid "Inr em" tr1]
    validate_items_quiet [of e "restaurant_id payload" "items payload" cid "Inl x" tr2]
  show ?thesis by (simp add: charge_in_trace)
next
  case (no_total em tr1 v tr2)
  with charge resolve_quiet [of e payload cid "Inr em" tr1]
    validate_items_quiet [of e "restaurant_id payload" "items payload" cid "Inr v" tr2]
  show ?thesis by (simp add: charge_in_trace)
next
  case (no_items em tr1 v tr2 tot)
  with charge resolve_quiet [of e payload cid "Inr em" tr1]
    validate_items_quiet [of e "restaurant_id payload" "items payload" cid "Inr v" tr2]
  show ?thesis by (simp add: charge_in_trace)
next
  case (persisted em tr1 v tr2 tot ds ord db1 tr3)
  have q: "commits (tr1 @ tr2) = []" "charges (tr1 @ tr2) = []"
    using resolve_quiet [OF persisted(1)] validate_items_quiet [OF persisted(2)] by simp_all
  have "charges tr3 = [(payment_request_payload ord (payment_method payload), payment_request_headers ord em cid)]"
    using persisted(6) by (cases rule: pay_and_dispatch_cases [of e ord payload em cid db1]) auto
  with charge persisted(7) q have "pl = payment_request_payload ord (payment_method payload)"
    "hs = payment_request_headers ord em cid"
    by (simp_all add: charge_in_trace)
  with that [of tot ds ord db1 em tr3 "tr1 @ tr2"] persisted q show ?thesis by simp
qed

section \<open>Payment failure\<close>

text \<open>
  C1, as amended. When a request reaches the payment step and the payment service answers
  with a response that is not a success (a status other than 201, or 201 with a decoded
  body whose status is not SUCCESS), the persisted order is updated to
  \<open>PAYMENT_FAILED\<close> / \<open>FAILED\<close>, that update is the last commit of the flow, and the
  operation fails with \<open>PAYMENT_FAILED\<close> (HTTP 402) carrying the identifier of that order.
\<close>

theorem payment_failure_response_marks_order:
  assumes run: "create_order e payload cid now db = (res, db', tr)"
    and charge: "Post_payments_charge pl hs \<in> set tr"
    and resp: "payment_service e pl hs = Response sc body"
    and fail: "sc \<noteq> 201 \<or> (\<exists>data. body = Some data \<and> status data \<noteq> Some ''SUCCESS'')"
  shows "\<exists>ord. res = Inl (HTTPException 402
                     \<lparr>code = ''PAYMENT_FAILED'', detail_reason = None,
                      detail_order_id = Some (order_id ord), correlationId = cid\<rparr>)
               \<and> http_status res = 402
               \<and> order_id ord = p_order_id pl
               \<and> find_order db' (order_id ord) = Some ord
               \<and> order_status ord = ''PAYMENT_FAILED'' \<and> payment_status ord = ''FAILED''
               \<and> last tr = Commit ord"
proof -
  from run charge obtain em tr0 tot ds ord db1 tr3 where
    p: "persist_pending_order payload tot ds now db = (ord, db1)"
    and d: "pay_and_dispatch e payload em cid ord db1 = (res, db', tr3)"
    and tr: "tr = tr0 @ [Commit ord] @ tr3"
    and pl: "pl = payment_request_payload ord (payment_method payload)"
    and hs: "hs = payment_request_headers ord em cid"
    by (rule reaches_payment)
  let ?ord1 = "ord\<lparr>order_status := ''PAYMENT_FAILED'', payment_status := ''FAILED''\<rparr>"
  have declined: "fst (call_payment_service e ord (payment_method payload) em cid) = Inr False"
    using resp fail unfolding pl hs by (rule payment_declines)
  have found: "find_order (update_order db1 ?ord1) (order_id ?ord1) = Some ?ord1"
    using find_order_persisted [OF p] find_order_update [of db1 ?ord1 ord] by simp
  from d declined have "res = Inl (HTTPException 402
                     \<lparr>code = ''PAYMENT_FAILED'', detail_reason = None,
                      detail_order_id = Some (order_id ?ord1), correlationId = cid\<rparr>)
      \<and> db' = update_order db1 ?ord1
      \<and> tr3 = [Post_payments_charge pl hs, Commit ?ord1]"
    unfolding pl hs
    by (cases rule: pay_and_dispatch_cases [of e ord payload em cid db1]) auto
  with found tr show ?thesis
    by (intro exI [of _ ?ord1]) (simp add: pl payment_request_payload_def)
qed

theorem payment_failure_response_marks_order_witness:
  "create_order env_payment_declined request_1 ''cid'' 0 db_empty =
     (Inl (HTTPException 402
        \<lparr>code = ''PAYMENT_FAILED'', detail_reason = None,
         detail_order_id = Some 1, correlationId = ''cid''\<rparr>),
      \<lparr>orders = [\<lparr>order_id = 1, o_customer_id = 1, o_restaurant_id = 5, o_address_id = Some 100,
                  order_status = ''PAYMENT_FAILED'', order_total = 13,
                  payment_status = ''FAILED'', created_at = 0\<rparr>],
       order_items = [\<lparr>order_item_id = 1, oi_order_id = 1, oi_item_id = 10, oi_quantity = 2, price = 5\<rparr>,
                      \<lparr>order_item_id = 2, oi_order_id = 1, oi_item_id = 11, oi_quantity = 1, price = 3\<rparr>]\<rparr>,
      snd (snd (create_order env_payment_declined request_1 ''cid'' 0 db_empty)))
   \<and> (\<exists>ord. find_order (fst (snd (create_order env_payment_declined request_1 ''cid'' 0 db_empty)))
                (order_id ord) = Some ord
            \<and> order_id ord = 1
            \<and> order_status ord = ''PAYMENT_FAILED'' \<and> payment_status ord = ''FAILED'')"
proof -
  let ?pl = "\<lparr>p_order_id = 1, amount = 13, p_method = ''CARD'', reference = ''ORDER-1'', force_fail = False\<rparr>"
  let ?hs = "[(''X-Correlation-Id'', ''cid''), (''X-Customer-Email'', ''c1@example.org''),
              (''Idempotency-Key'', ''order-1-payment'')]"
  obtain res db' tr where run: "create_order env_payment_declined request_1 ''cid'' 0 db_empty = (res, db', tr)"
    by (cases "create_order env_payment_declined request_1 ''cid'' 0 db_empty") auto
  have tr: "Post_payments_charge ?pl ?hs \<in> set tr"
    using run by (auto simp: evals)
  have resp: "payment_service env_payment_declined ?pl ?hs = Response 201 (Some \<lparr>status = Some ''FAILED''\<rparr>)"
    by (simp add: fixtures)
  have fail: "(201::int) \<noteq> 201 \<or> (\<exists>data. Some \<lparr>status = Some ''FAILED''\<rparr> = Some data \<and> status data \<noteq> Some ''SUCCESS'')"
    by simp
  from payment_failure_response_marks_order [OF run tr resp fail]
  have "\<exists>ord. find_order db' (order_id ord) = Some ord \<and> order_id ord = 1
            \<and> order_status ord = ''PAYMENT_FAILED'' \<and> payment_status ord = ''FAILED''"
    by auto
  moreover have "res = Inl (HTTPException 402
        \<lparr>code = ''PAYMENT_FAILED'', detail_reason = None,
         detail_order_id = Some 1, correlationId = ''cid''\<rparr>)"
    "db' = \<lparr>orders = [\<lparr>order_id = 1, o_customer_id = 1, o_restaurant_id = 5, o_address_id = Some 100,
                  order_status = ''PAYMENT_FAILED'', order_total = 13,
                  payment_status = ''FAILED'', created_at = 0\<rparr>],
       order_items = [\<lparr>order_item_id = 1, oi_order_id = 1, oi_item_id = 10, oi_quantity = 2, price = 5\<rparr>,
                      \<lparr>order_item_id = 2, oi_order_id = 1, oi_item_id = 11, oi_quantity = 1, price = 3\<rparr>]\<rparr>"
    using run by (auto simp: evals)
  ultimately show ?thesis using run by simp
qed

text \<open>
  The claim as written also covers a transport failure. There the call raises, no handler
  catches it, the framework answers 500 and the order stays \<open>PENDING_PAYMENT\<close> / \<open>PENDING\<close>.
\<close>

theorem payment_timeout_counterexample:
  "http_status (fst (create_order env_payment_timeout request_1 ''cid'' 0 db_empty)) = 500
   \<and> fst (create_order env_payment_timeout request_1 ''cid'' 0 db_empty) = Inl TransportError
   \<and> map fst (charges (snd (snd (create_order env_payment_timeout request_1 ''cid'' 0 db_empty))))
       = [\<lparr>p_order_id = 1, amount = 13, p_method = ''CARD'', reference = ''ORDER-1'', force_fail = False\<rparr>]
   \<and> map order_status (orders (fst (snd (create_order env_payment_timeout request_1 ''cid'' 0 db_empty))))
       = [''PENDING_PAYMENT'']
   \<and> map payment_status (orders (fst (snd (create_order env_payment_timeout request_1 ''cid'' 0 db_empty))))
       = [''PENDING'']"
  by (simp add: evals)

section \<open>Delivery assignment\<close>

lemma payment_succeeds:
  assumes "payment_service e (payment_request_payload ord meth) (payment_request_headers ord em cid)
             = Response 201 (Some data)"
    and "status data = Some ''SUCCESS''"
  shows "fst (call_payment_service e ord meth em cid) = Inr True"
  using assms by (simp add: call_payment_service_eq)

lemma find_order_confirmed:
  assumes "persist_pending_order payload tot ds now db = (ord, db1)"
  shows "find_order (update_order db1 (ord\<lparr>payment_status := ''SUCCESS'', order_status := ''CONFIRMED''\<rparr>))
           (order_id ord)
         = Some (ord\<lparr>payment_status := ''SUCCESS'', order_status := ''CONFIRMED''\<rparr>)"
  using find_order_persisted [OF assms]
    find_order_update [of db1 "ord\<lparr>payment_status := ''SUCCESS'', order_status := ''CONFIRMED''\<rparr>" ord]
  by simp

lemma find_order_out_for_delivery:
  assumes "persist_pending_order payload tot ds now db = (ord, db1)"
  shows "find_order (update_order
            (update_order db1 (ord\<lparr>payment_status := ''SUCCESS'', order_status := ''CONFIRMED''\<rparr>))
            (ord\<lparr>payment_status := ''SUCCESS'', order_status := ''OUT_FOR_DELIVERY''\<rparr>))
           (order_id ord)
         = Some (ord\<lparr>payment_status := ''SUCCESS'', order_status := ''OUT_FOR_DELIVERY''\<rparr>)"
  using find_order_confirmed [OF assms]
    find_order_update [of "update_order db1 (ord\<lparr>payment_status := ''SUCCESS'', order_status := ''CONFIRMED''\<rparr>)"
      "ord\<lparr>payment_status := ''SUCCESS'', order_status := ''OUT_FOR_DELIVERY''\<rparr>"
      "ord\<lparr>payment_status := ''SUCCESS'', order_status := ''CONFIRMED''\<rparr>"]
  by simp

text \<open>
  C3, as amended. When the payment step succeeds and the delivery service answers with a
  response, the operation returns 201 with the order and its items, whatever the status of
  that response; the persisted order is \<open>OUT_FOR_DELIVERY\<close> when the status is 201 and
  \<open>CONFIRMED\<close> otherwise.
\<close>

theorem delivery_response_never_fails_order:
  assumes run: "create_order e payload cid now db = (res, db', tr)"
    and charge: "Post_payments_charge pl hs \<in> set tr"
    and paid: "payment_service e pl hs = Response 201 (Some data)" "status data = Some ''SUCCESS''"
    and resp: "delivery_service e (p_order_id pl) cid = Response sc b"
  shows "\<exists>ord. res = Inr (ord, items_of db' (order_id ord))
               \<and> http_status res = 201
               \<and> order_id ord = p_order_id pl
               \<and> find_order db' (order_id ord) = Some ord
               \<and> payment_status ord = ''SUCCESS''
               \<and> order_status ord = (if sc = 201 then ''OUT_FOR_DELIVERY'' else ''CONFIRMED'')"
proof -
  from run charge obtain em tr0 tot ds ord db1 tr3 where
    p: "persist_pending_order payload tot ds now db = (ord, db1)"
    and d: "pay_and_dispatch e payload em cid ord db1 = (res, db', tr3)"
    and pl: "pl = payment_request_payload ord (payment_method payload)"
    and hs: "hs = payment_request_headers ord em cid"
    by (rule reaches_payment)
  let ?ord2 = "ord\<lparr>payment_status := ''SUCCESS'', order_status := ''CONFIRMED''\<rparr>"
  let ?ord3 = "ord\<lparr>payment_status := ''SUCCESS'', order_status := ''OUT_FOR_DELIVERY''\<rparr>"
  have ok: "fst (call_payment_service e ord (payment_method payload) em cid) = Inr True"
    using paid unfolding pl hs by (rule payment_succeeds)
  have oid: "p_order_id pl = order_id ord"
    by (simp add: pl payment_request_payload_def)
  show ?thesis
  proof (cases "sc = 201")
    case True
    with d ok resp oid have "res = Inr (?ord3, items_of db1 (order_id ord))"
      "db' = update_order (update_order db1 ?ord2) ?ord3"
      by (cases rule: pay_and_dispatch_cases [of e ord payload em cid db1]; simp)+
    with True oid find_order_out_for_delivery [OF p] show ?thesis
      by (intro exI [of _ ?ord3]) simp
  next
    case False
    with d ok resp oid have "res = Inr (?ord2, items_of db1 (order_id ord))"
      "db' = update_order db1 ?ord2"
      by (cases rule: pay_and_dispatch_cases [of e ord payload em cid db1]; simp)+
    with False oid find_order_confirmed [OF p] show ?thesis
      by (intro exI [of _ ?ord2]) simp
  qed
qed

theorem delivery_response_never_fails_order_witness:
  "(\<exists>ord. fst (create_order env_delivery_busy request_1 ''cid'' 0 db_empty)
            = Inr (ord, items_of (fst (snd (create_order env_delivery_busy request_1 ''cid'' 0 db_empty))) (order_id ord))
          \<and> http_status (fst (create_order env_delivery_busy request_1 ''cid'' 0 db_empty)) = 201
          \<and> order_id ord = 1
          \<and> find_order (fst (snd (create_order env_delivery_busy request_1 ''cid'' 0 db_empty))) (order_id ord) = Some ord
          \<and> payment_status ord = ''SUCCESS''
          \<and> order_status ord = ''CONFIRMED'')
   \<and> (\<exists>ord. fst (create_order env_ok request_1 ''cid'' 0 db_empty)
            = Inr (ord, items_of (fst (snd (create_order env_ok request_1 ''cid'' 0 db_empty))) (order_id ord))
          \<and> http_status (fst (create_order env_ok request_1 ''cid'' 0 db_empty)) = 201
          \<and> order_id ord = 1
          \<and> find_order (fst (snd (create_order env_ok request_1 ''cid'' 0 db_empty))) (order_id ord) = Some ord
          \<and> payment_status ord = ''SUCCESS''
          \<and> order_status ord = ''OUT_FOR_DELIVERY'')"
proof -
  let ?pl = "\<lparr>p_order_id = 1, amount = 13, p_method = ''CARD'', reference = ''ORDER-1'', force_fail = False\<rparr>"
  let ?hs = "[(''X-Correlation-Id'', ''cid''), (''X-Customer-Email'', ''c1@example.org''),
              (''Idempotency-Key'', ''order-1-payment'')]"
  obtain res db' tr where busy: "create_order env_delivery_busy request_1 ''cid'' 0 db_empty = (res, db', tr)"
    by (cases "create_order env_delivery_busy request_1 ''cid'' 0 db_empty") auto
  have c1: "Post_payments_charge ?pl ?hs \<in> set tr"
    using busy by (auto simp: evals)
  have p1: "payment_service env_delivery_busy ?pl ?hs = Response 201 (Some \<lparr>status = Some ''SUCCESS''\<rparr>)"
    "status \<lparr>status = Some ''SUCCESS''\<rparr> = Some ''SUCCESS''"
    by (simp_all add: fixtures)
  have d1: "delivery_service env_delivery_busy (p_order_id ?pl) ''cid'' = Response 503 None"
    by (simp add: fixtures)
  obtain res2 db2 tr2 where ok: "create_order env_ok request_1 ''cid'' 0 db_empty = (res2, db2, tr2)"
    by (cases "create_order env_ok request_1 ''cid'' 0 db_empty") auto
  have c2: "Post_payments_charge ?pl ?hs \<in> set tr2"
    using ok by (auto simp: evals)
  have p2: "payment_service env_ok ?pl ?hs = Response 201 (Some \<lparr>status = Some ''SUCCESS''\<rparr>)"
    by (simp add: fixtures)
  have d2: "delivery_service env_ok (p_order_id ?pl) ''cid'' = Response 201 None"
    by (simp add: fixtures)
  from delivery_response_never_fails_order [OF busy c1 p1 d1]
    delivery_response_never_fails_order [OF ok c2 p2 p1(2) d2]
  show ?thesis unfolding busy ok by simp
qed

text \<open>
  The claim as written covers every delivery outcome. When the delivery call raises a
  transport error, the order is already \<open>CONFIRMED\<close> and paid, and the operation answers
  500 instead of 201.
\<close>

theorem delivery_timeout_counterexample:
  "http_status (fst (create_order env_delivery_timeout request_1 ''cid'' 0 db_empty)) = 500
   \<and> fst (create_order env_delivery_timeout request_1 ''cid'' 0 db_empty) = Inl TransportError
   \<and> map payment_status (orders (fst (snd (create_order env_delivery_timeout request_1 ''cid'' 0 db_empty))))
       = [''SUCCESS'']
   \<and> map order_status (orders (fst (snd (create_order env_delivery_timeout request_1 ''cid'' 0 db_empty))))
       = [''CONFIRMED'']"
  by (simp add: evals)

section \<open>Customer and address validation\<close>

lemma validate_customer_and_address_eq:
  "validate_customer_and_address e cust addr cid =
     ((case customer_service e cust cid of
         Transport_failure \<Rightarrow> Inl TransportError
       | Response sc body \<Rightarrow>
           if sc \<noteq> 200 then
             Inl (HTTPException 400 \<lparr>code = ''INVALID_CUSTOMER'', detail_reason = None,
                    detail_order_id = None, correlationId = cid\<rparr>)
           else (case body of
                   None \<Rightarrow> Inl JSONDecodeError
                 | Some data \<Rightarrow>
                     (case addr of
                        None \<Rightarrow> Inr (email data)
                      | Some a \<Rightarrow>
                          if \<not> list_ex (\<lambda>x. ca_address_id x = a) (addresses data) then
                            Inl (HTTPException 400
                                   \<lparr>code = ''INVALID_ADDRESS_FOR_CUSTOMER'', detail_reason = None,
                                    detail_order_id = None, correlationId = cid\<rparr>)
                          else Inr (email data)))),
      [Get_customer cust cid])"
  by (simp add: validate_customer_and_address_def Let_def split: http_outcome.splits option.splits)

lemma resolve_with_email:
  "truthy (customer_email payload) \<Longrightarrow>
   resolve_customer_email e payload cid = (Inr (customer_email payload), [])"
  by (simp add: resolve_customer_email_def)

lemma resolve_by_lookup:
  "\<not> truthy (customer_email payload) \<Longrightarrow>
   resolve_customer_email e payload cid =
     validate_customer_and_address e (customer_id payload) (address_id payload) cid"
  by (simp add: resolve_customer_email_def)

lemma create_order_customer_fails:
  "resolve_customer_email e payload cid = (Inl x, tr1) \<Longrightarrow>
   create_order e payload cid now db = (Inl x, db, tr1)"
  by (simp add: create_order_def)

text \<open>
  C7, as amended. When the customer lookup is made and does not come back with status 200
  (a response with another status, or no response at all), no order row and no item row is
  created: the repository is exactly what it was, and the lookup is the only thing the flow
  did. When a response with another status came back, the operation fails with
  \<open>INVALID_CUSTOMER\<close> (HTTP 400).
\<close>

theorem customer_lookup_failure_leaves_repository:
  assumes run: "create_order e payload cid now db = (res, db', tr)"
    and lookup: "\<not> truthy (customer_email payload)"
    and failed: "customer_service e (customer_id payload) cid = Transport_failure
                 \<or> (\<exists>sc b. customer_service e (customer_id payload) cid = Response sc b \<and> sc \<noteq> 200)"
  shows "db' = db \<and> tr = [Get_customer (customer_id payload) cid]
         \<and> ((\<exists>sc b. customer_service e (customer_id payload) cid = Response sc b) \<longrightarrow>
              res = Inl (HTTPException 400 \<lparr>code = ''INVALID_CUSTOMER'', detail_reason = None,
                           detail_order_id = None, correlationId = cid\<rparr>)
              \<and> http_status res = 400)"
proof -
  from failed obtain x where
    x: "resolve_customer_email e payload cid = (Inl x, [Get_customer (customer_id payload) cid])"
    and code: "(\<exists>sc b. customer_service e (customer_id payload) cid = Response sc b) \<longrightarrow>
               x = HTTPException 400 \<lparr>code = ''INVALID_CUSTOMER'', detail_reason = None,
                           detail_order_id = None, correlationId = cid\<rparr>"
    by (auto simp: resolve_by_lookup [OF lookup] validate_customer_and_address_eq)
  from create_order_customer_fails [OF x, of now db] run code show ?thesis by auto
qed

theorem customer_lookup_failure_leaves_repository_witness:
  "fst (snd (create_order env_customer_unknown request_1 ''cid'' 0 db_empty)) = db_empty
   \<and> snd (snd (create_order env_customer_unknown request_1 ''cid'' 0 db_empty)) = [Get_customer 1 ''cid'']
   \<and> fst (create_order env_customer_unknown request_1 ''cid'' 0 db_empty)
       = Inl (HTTPException 400 \<lparr>code = ''INVALID_CUSTOMER'', detail_reason = None,
                           detail_order_id = None, correlationId = ''cid''\<rparr>)
   \<and> fst (snd (create_order env_customer_timeout request_1 ''cid'' 0 db_empty)) = db_empty"
proof -
  obtain res db' tr where a: "create_order env_customer_unknown request_1 ''cid'' 0 db_empty = (res, db', tr)"
    by (cases "create_order env_customer_unknown request_1 ''cid'' 0 db_empty") auto
  obtain res2 db2 tr2 where b: "create_order env_customer_timeout request_1 ''cid'' 0 db_empty = (res2, db2, tr2)"
    by (cases "create_order env_customer_timeout request_1 ''cid'' 0 db_empty") auto
  have l: "\<not> truthy (customer_email request_1)" by (simp add: fixtures truthy_def)
  have fa: "customer_service env_customer_unknown (customer_id request_1) ''cid'' = Transport_failure
            \<or> (\<exists>sc b. customer_service env_customer_unknown (customer_id request_1) ''cid'' = Response sc b \<and> sc \<noteq> 200)"
    by (simp add: fixtures)
  have fb: "customer_service env_customer_timeout (customer_id request_1) ''cid'' = Transport_failure
            \<or> (\<exists>sc b. customer_service env_customer_timeout (customer_id request_1) ''cid'' = Response sc b \<and> sc \<noteq> 200)"
    by (simp add: fixtures)
  have r: "\<exists>sc b. customer_service env_customer_unknown (customer_id request_1) ''cid'' = Response sc b"
    by (simp add: fixtures)
  have c: "customer_id request_1 = 1" by (simp add: fixtures)
  from customer_lookup_failure_leaves_repository [OF a l fa] r
    customer_lookup_failure_leaves_repository [OF b l fb]
  show ?thesis unfolding a b c by simp
qed

text \<open>
  The claim as written promises \<open>INVALID_CUSTOMER\<close> for every failed lookup. A lookup that
  times out raises instead: the operation answers 500 with no error code.
\<close>

theorem customer_timeout_counterexample:
  "fst (create_order env_customer_timeout request_1 ''cid'' 0 db_empty) = Inl TransportError
   \<and> error_code (fst (create_order env_customer_timeout request_1 ''cid'' 0 db_empty)) = None
   \<and> http_status (fst (create_order env_customer_timeout request_1 ''cid'' 0 db_empty)) = 500"
  by (simp add: evals)

text \<open>
  C4, as amended. When no e-mail is supplied, the lookup returns 200 with a decoded body,
  and the supplied address is not among the customer's addresses, the operation fails with
  \<open>INVALID_ADDRESS_FOR_CUSTOMER\<close> (HTTP 400) and the repository is unchanged.
\<close>

theorem unknown_address_is_rejected:
  assumes run: "create_order e payload cid now db = (res, db', tr)"
    and lookup: "\<not> truthy (customer_email payload)"
    and addr: "address_id payload = Some a"
    and found: "customer_service e (customer_id payload) cid = Response 200 (Some data)"
    and unknown: "a \<notin> set (map ca_address_id (addresses data))"
  shows "res = Inl (HTTPException 400 \<lparr>code = ''INVALID_ADDRESS_FOR_CUSTOMER'', detail_reason = None,
                      detail_order_id = None, correlationId = cid\<rparr>)
         \<and> http_status res = 400 \<and> db' = db \<and> commits tr = []"
proof -
  from unknown have "\<not> list_ex (\<lambda>x. ca_address_id x = a) (addresses data)"
    by (auto simp: list_ex_iff)
  with addr found have
    "resolve_customer_email e payload cid =
       (Inl (HTTPException 400 \<lparr>code = ''INVALID_ADDRESS_FOR_CUSTOMER'', detail_reason = None,
                      detail_order_id = None, correlationId = cid\<rparr>),
        [Get_customer (customer_id payload) cid])"
    by (simp add: resolve_by_lookup [OF lookup] validate_customer_and_address_eq)
  from create_order_customer_fails [OF this, of now db] run show ?thesis by simp
qed

theorem unknown_address_is_rejected_witness:
  "fst (create_order env_ok request_wrong_address ''cid'' 0 db_empty)
     = Inl (HTTPException 400 \<lparr>code = ''INVALID_ADDRESS_FOR_CUSTOMER'', detail_reason = None,
                      detail_order_id = None, correlationId = ''cid''\<rparr>)
   \<and> fst (snd (create_order env_ok request_wrong_address ''cid'' 0 db_empty)) = db_empty"
proof -
  obtain res db' tr where a: "create_order env_ok request_wrong_address ''cid'' 0 db_empty = (res, db', tr)"
    by (cases "create_order env_ok request_wrong_address ''cid'' 0 db_empty") auto
  have l: "\<not> truthy (customer_email request_wrong_address)" by (simp add: fixtures truthy_def)
  have ad: "address_id request_wrong_address = Some 999" by (simp add: fixtures)
  have f: "customer_service env_ok (customer_id request_wrong_address) ''cid'' = Response 200 (Some customer_1)"
    by (simp add: fixtures)
  have u: "999 \<notin> set (map ca_address_id (addresses customer_1))" by (simp add: fixtures)
  from unknown_address_is_rejected [OF a l ad f u] show ?thesis unfolding a by simp
qed

text \<open>
  The claim as written covers every request that supplies an address. A request that also
  supplies an e-mail skips the lookup: address 999 is not one of customer 1's addresses, and
  the order is created with it.
\<close>

theorem address_unchecked_counterexample:
  "customer_service env_ok 1 ''cid'' = Response 200 (Some customer_1)
   \<and> map ca_address_id (addresses customer_1) = [100]
   \<and> address_id request_with_email = Some 999
   \<and> http_status (fst (create_order env_ok request_with_email ''cid'' 0 db_empty)) = 201
   \<and> map o_address_id (orders (fst (snd (create_order env_ok request_with_email ''cid'' 0 db_empty))))
       = [Some 999]"
  by (simp add: evals)

section \<open>Menu validation\<close>

lemma validate_restaurant_and_items_eq:
  "its \<noteq> [] \<Longrightarrow>
   validate_restaurant_and_items e rest its cid =
     ((case restaurant_service e rest (map (\<lambda>it. (item_id it, quantity it)) its) cid of
         Transport_failure \<Rightarrow> Inl TransportError
       | Response sc body \<Rightarrow>
           if sc \<noteq> 200 then
             Inl (HTTPException 502 \<lparr>code = ''MENU_VALIDATION_FAILED'', detail_reason = None,
                    detail_order_id = None, correlationId = cid\<rparr>)
           else (case body of
                   None \<Rightarrow> Inl JSONDecodeError
                 | Some v \<Rightarrow>
                     if \<not> valid v then
                       Inl (HTTPException 400
                              \<lparr>code = ''INVALID_MENU_SELECTION'', detail_reason = reason v,
                               detail_order_id = None, correlationId = cid\<rparr>)
                     else Inr v)),
      [Post_validate_items rest (map (\<lambda>it. (item_id it, quantity it)) its) cid])"
  by (simp add: validate_restaurant_and_items_def Let_def split: http_outcome.splits option.splits)

lemma validate_restaurant_and_items_empty:
  "validate_restaurant_and_items e rest [] cid =
     (Inl (HTTPException 400 \<lparr>code = ''EMPTY_ORDER'', detail_reason = None,
             detail_order_id = None, correlationId = cid\<rparr>), [])"
  by (simp add: validate_restaurant_and_items_def)

lemma create_order_menu_fails:
  "resolve_customer_email e payload cid = (Inr em, tr1) \<Longrightarrow>
   validate_restaurant_and_items e (restaurant_id payload) (items payload) cid = (Inl x, tr2) \<Longrightarrow>
   create_order e payload cid now db = (Inl x, db, tr1 @ tr2)"
  by (simp add: create_order_def)

lemma resolve_never_validates:
  "resolve_customer_email e payload cid = (r, tr) \<Longrightarrow> filter is_validate_items tr = []"
  by (auto dest: resolve_trace)

text \<open>
  C6, as amended. When the items list is not empty, customer validation has passed, and
  the restaurant service does not come back with status 200 (a response with another
  status, or no response at all), no order is created. When a response with another status
  came back, the operation fails with \<open>MENU_VALIDATION_FAILED\<close> (HTTP 502).
\<close>

theorem menu_fault_creates_nothing:
  assumes run: "create_order e payload cid now db = (res, db', tr)"
    and nonempty: "items payload \<noteq> []"
    and customer: "fst (resolve_customer_email e payload cid) = Inr em"
    and out: "restaurant_service e (restaurant_id payload)
                (map (\<lambda>it. (item_id it, quantity it)) (items payload)) cid = r"
    and failed: "r = Transport_failure \<or> (\<exists>sc b. r = Response sc b \<and> sc \<noteq> 200)"
  shows "db' = db \<and> commits tr = []
         \<and> ((\<exists>sc b. r = Response sc b) \<longrightarrow>
              res = Inl (HTTPException 502 \<lparr>code = ''MENU_VALIDATION_FAILED'', detail_reason = None,
                           detail_order_id = None, correlationId = cid\<rparr>)
              \<and> http_status res = 502)"
proof -
  obtain tr1 where c: "resolve_customer_email e payload cid = (Inr em, tr1)"
    using customer by (cases "resolve_customer_email e payload cid") simp
  from failed out obtain x where
    x: "validate_restaurant_and_items e (restaurant_id payload) (items payload) cid
          = (Inl x, [Post_validate_items (restaurant_id payload)
                       (map (\<lambda>it. (item_id it, quantity it)) (items payload)) cid])"
    and code: "(\<exists>sc b. r = Response sc b) \<longrightarrow>
               x = HTTPException 502 \<lparr>code = ''MENU_VALIDATION_FAILED'', detail_reason = None,
                           detail_order_id = None, correlationId = cid\<rparr>"
    by (auto simp: validate_restaurant_and_items_eq [OF nonempty])
  from create_order_menu_fails [OF c x, of now db] run code resolve_quiet [OF c]
  show ?thesis by auto
qed

theorem menu_fault_creates_nothing_witness:
  "fst (create_order env_restaurant_down request_1 ''cid'' 0 db_empty)
     = Inl (HTTPException 502 \<lparr>code = ''MENU_VALIDATION_FAILED'', detail_reason = None,
                           detail_order_id = None, correlationId = ''cid''\<rparr>)
   \<and> fst (snd (create_order env_restaurant_down request_1 ''cid'' 0 db_empty)) = db_empty
   \<and> fst (snd (create_order env_restaurant_timeout request_1 ''cid'' 0 db_empty)) = db_empty"
proof -
  obtain res db' tr where a: "create_order env_restaurant_down request_1 ''cid'' 0 db_empty = (res, db', tr)"
    by (cases "create_order env_restaurant_down request_1 ''cid'' 0 db_empty") auto
  obtain res2 db2 tr2 where b: "create_order env_restaurant_timeout request_1 ''cid'' 0 db_empty = (res2, db2, tr2)"
    by (cases "create_order env_restaurant_timeout request_1 ''cid'' 0 db_empty") auto
  have n: "items request_1 \<noteq> []" by (simp add: fixtures)
  have ca: "fst (resolve_customer_email env_restaurant_down request_1 ''cid'') = Inr (Some ''c1@example.org'')"
    by (simp add: evals)
  have cb: "fst (resolve_customer_email env_restaurant_timeout request_1 ''cid'') = Inr (Some ''c1@example.org'')"
    by (simp add: evals)
  have oa: "restaurant_service env_restaurant_down (restaurant_id request_1)
              (map (\<lambda>it. (item_id it, quantity it)) (items request_1)) ''cid'' = Response 503 None"
    by (simp add: fixtures)
  have ob: "restaurant_service env_restaurant_timeout (restaurant_id request_1)
              (map (\<lambda>it. (item_id it, quantity it)) (items request_1)) ''cid'' = Transport_failure"
    by (simp add: fixtures)
  have fa: "(Response 503 None :: validate_body http_outcome) = Transport_failure
            \<or> (\<exists>sc b. (Response 503 None :: validate_body http_outcome) = Response sc b \<and> sc \<noteq> 200)"
    by simp
  have fb: "(Transport_failure :: validate_body http_outcome) = Transport_failure
            \<or> (\<exists>sc b. (Transport_failure :: validate_body http_outcome) = Response sc b \<and> sc \<noteq> 200)"
    by simp
  from menu_fault_creates_nothing [OF a n ca oa fa] menu_fault_creates_nothing [OF b n cb ob fb]
  show ?thesis unfolding a b by simp
qed

text \<open>
  The claim as written promises \<open>MENU_VALIDATION_FAILED\<close> also when the restaurant service
  is unreachable. There the call raises and the operation answers 500, not 502.
\<close>

theorem restaurant_timeout_counterexample:
  "fst (create_order env_restaurant_timeout request_1 ''cid'' 0 db_empty) = Inl TransportError
   \<and> error_code (fst (create_order env_restaurant_timeout request_1 ''cid'' 0 db_empty)) = None
   \<and> http_status (fst (create_order env_restaurant_timeout request_1 ''cid'' 0 db_empty)) = 500"
  by (simp add: evals)

text \<open>
  C8, as amended. For every request with an empty items list, no call to the validate-items
  endpoint is made and no order is created; when customer validation has passed (or was
  skipped because an e-mail was supplied), the operation fails with \<open>EMPTY_ORDER\<close>
  (HTTP 400).
\<close>

theorem empty_order_never_reaches_menu:
  assumes run: "create_order e payload cid now db = (res, db', tr)"
    and empty: "items payload = []"
  shows "filter is_validate_items tr = [] \<and> db' = db \<and> commits tr = []
         \<and> (\<not> isl (fst (resolve_customer_email e payload cid)) \<longrightarrow>
              res = Inl (HTTPException 400 \<lparr>code = ''EMPTY_ORDER'', detail_reason = None,
                           detail_order_id = None, correlationId = cid\<rparr>)
              \<and> http_status res = 400)"
proof (cases "resolve_customer_email e payload cid")
  case (Pair r tr1)
  note q = resolve_quiet [OF Pair] resolve_never_validates [OF Pair]
  show ?thesis
  proof (cases r)
    case (Inl x)
    with Pair create_order_customer_fails [of e payload cid x tr1 now db] run q
    show ?thesis by auto
  next
    case (Inr em)
    with Pair empty
      create_order_menu_fails [of e payload cid em tr1
        "HTTPException 400 \<lparr>code = ''EMPTY_ORDER'', detail_reason = None,
                           detail_order_id = None, correlationId = cid\<rparr>" "[]" now db]
      validate_restaurant_and_items_empty [of e "restaurant_id payload" cid] run q
    show ?thesis by auto
  qed
qed

theorem empty_order_never_reaches_menu_witness:
  "filter is_validate_items (snd (snd (create_order env_ok request_no_items ''cid'' 0 db_empty))) = []
   \<and> fst (snd (create_order env_ok request_no_items ''cid'' 0 db_empty)) = db_empty
   \<and> fst (create_order env_ok request_no_items ''cid'' 0 db_empty)
       = Inl (HTTPException 400 \<lparr>code = ''EMPTY_ORDER'', detail_reason = None,
                           detail_order_id = None, correlationId = ''cid''\<rparr>)"
proof -
  obtain res db' tr where a: "create_order env_ok request_no_items ''cid'' 0 db_empty = (res, db', tr)"
    by (cases "create_order env_ok request_no_items ''cid'' 0 db_empty") auto
  have e: "items request_no_items = []" by (simp add: fixtures)
  have c: "\<not> isl (fst (resolve_customer_email env_ok request_no_items ''cid''))"
    by (simp add: evals)
  from empty_order_never_reaches_menu [OF a e] c show ?thesis unfolding a by simp
qed

text \<open>
  The claim as written promises \<open>EMPTY_ORDER\<close> for every request with no items. Customer
  validation runs first: with an unknown customer the same request fails with
  \<open>INVALID_CUSTOMER\<close>.
\<close>

theorem empty_order_unknown_customer_counterexample:
  "items request_no_items = []
   \<and> error_code (fst (create_order env_customer_unknown request_no_items ''cid'' 0 db_empty))
       = Some ''INVALID_CUSTOMER''"
  by (simp add: evals)

end
